theory Spec2Isabelle
  imports Complex_Main "HOL-Library.Word"
begin

section \<open>vocal-agent-fr-live: the example clients\<close>

text \<open>
  A shallow embedding of the client logic of \<^verbatim>\<open>examples/react-client/src/App.jsx\<close> and
  \<^verbatim>\<open>examples/flutter-client/lib/main.dart\<close>: the PCM16 codec of the capture and playback
  paths, the playback queue, the control-message dispatcher, and the handlers that open, use
  and close the streaming connection. Every handler is a function on an explicit record of
  the component's state; the values a handler obtains from the platform (the clock, the
  HTTP response, the outcome of a constructor) are its parameters.
\<close>

subsection \<open>JavaScript numbers and the PCM16 codec\<close>

text \<open>
  A JavaScript Number is a finite binary64 value, an infinity, or NaN. Finite values are kept
  as exact rationals. The arithmetic of the codec is exact on the values that occur: a sample
  read from a \<^verbatim>\<open>Float32Array\<close> has a 24-bit significand, so its product with 32767 fits the
  53-bit significand of a binary64, and an int16 divided by 32768 is a binary32 value.
\<close>

datatype jsnum = Finite rat | PosInf | NegInf | NaN

text \<open>\<^verbatim>\<open>Math.min\<close> and \<^verbatim>\<open>Math.max\<close>: NaN if either argument is NaN.\<close>

fun Math_min :: "jsnum \<Rightarrow> jsnum \<Rightarrow> jsnum" where
  "Math_min NaN y = NaN"
| "Math_min x NaN = NaN"
| "Math_min NegInf y = NegInf"
| "Math_min x NegInf = NegInf"
| "Math_min PosInf y = y"
| "Math_min x PosInf = x"
| "Math_min (Finite a) (Finite b) = Finite (min a b)"

fun Math_max :: "jsnum \<Rightarrow> jsnum \<Rightarrow> jsnum" where
  "Math_max NaN y = NaN"
| "Math_max x NaN = NaN"
| "Math_max PosInf y = PosInf"
| "Math_max x PosInf = PosInf"
| "Math_max NegInf y = y"
| "Math_max x NegInf = x"
| "Math_max (Finite a) (Finite b) = Finite (max a b)"

text \<open>The product \<^verbatim>\<open>v * 32767\<close>.\<close>

fun times_32767 :: "jsnum \<Rightarrow> jsnum" where
  "times_32767 (Finite r) = Finite (r * 32767)"
| "times_32767 PosInf = PosInf"
| "times_32767 NegInf = NegInf"
| "times_32767 NaN = NaN"

text \<open>
  Storing a Number into an \<^verbatim>\<open>Int16Array\<close> applies ToInt16: NaN and the infinities become
  0; a finite value is truncated towards zero and reduced modulo \<open>2 ^ 16\<close>, which is what
  \<^const>\<open>word_of_int\<close> does; the element is read back as a signed value with \<^const>\<open>sint\<close>.
\<close>

definition js_truncate :: "rat \<Rightarrow> int" where
  "js_truncate r = (if 0 \<le> r then \<lfloor>r\<rfloor> else \<lceil>r\<rceil>)"

fun ToInt16 :: "jsnum \<Rightarrow> 16 word" where
  "ToInt16 (Finite r) = word_of_int (js_truncate r)"
| "ToInt16 PosInf = 0"
| "ToInt16 NegInf = 0"
| "ToInt16 NaN = 0"

text \<open>
  The capture path, \<^verbatim>\<open>processor.onaudioprocess\<close>:
  \<^verbatim>\<open>int16[i] = Math.max(-1, Math.min(1, float32[i])) * 32767\<close>
\<close>

definition clamp_sample :: "jsnum \<Rightarrow> jsnum" where
  "clamp_sample x = Math_max (Finite (- 1)) (Math_min (Finite 1) x)"

definition encode_sample :: "jsnum \<Rightarrow> 16 word" where
  "encode_sample x = ToInt16 (times_32767 (clamp_sample x))"

text \<open>
  The nominal sample range \<open>[-1, 1]\<close>, as the test \<^verbatim>\<open>-1 <= v && v <= 1\<close> on a Number:
  it fails on NaN and on the infinities.
\<close>

fun in_unit_range :: "jsnum \<Rightarrow> bool" where
  "in_unit_range (Finite r) = (- 1 \<le> r \<and> r \<le> 1)"
| "in_unit_range PosInf = False"
| "in_unit_range NegInf = False"
| "in_unit_range NaN = False"

text \<open>The playback path, \<^verbatim>\<open>playAudioQueue\<close>: \<^verbatim>\<open>float32[i] = int16[i] / 32768\<close>\<close>

definition decode_sample :: "16 word \<Rightarrow> rat" where
  "decode_sample w = rat_of_int (sint w) / 32768"

subsection \<open>Strings\<close>

text \<open>
  Strings are byte lists; the source's literals that are not ASCII are written as their
  UTF-8 encoding. Session identifiers are ASCII, where \<^verbatim>\<open>slice(0, 8)\<close> and
  \<^verbatim>\<open>substring(0, 8)\<close> count bytes as they count code units.
\<close>

definition txt_session_ready :: string where \<comment> \<open>U+1F399 U+FE0F, \<^verbatim>\<open> Session pr\<close>, U+00EA, \<^verbatim>\<open>te\<close>\<close>
  "txt_session_ready =
     [CHR 0xF0, CHR 0x9F, CHR 0x8E, CHR 0x99, CHR 0xEF, CHR 0xB8, CHR 0x8F] @ '' Session pr'' @
     [CHR 0xC3, CHR 0xAA] @ ''te''"

definition txt_heard :: string where \<comment> \<open>U+1F5E3 U+FE0F and a space\<close>
  "txt_heard = [CHR 0xF0, CHR 0x9F, CHR 0x97, CHR 0xA3, CHR 0xEF, CHR 0xB8, CHR 0x8F] @ '' ''"

definition txt_agent :: string where \<comment> \<open>U+1F916 and a space\<close>
  "txt_agent = [CHR 0xF0, CHR 0x9F, CHR 0xA4, CHR 0x96] @ '' ''"

definition txt_audio_start :: string where \<comment> \<open>U+1F50A, \<^verbatim>\<open> Audio en cours...\<close>\<close>
  "txt_audio_start = [CHR 0xF0, CHR 0x9F, CHR 0x94, CHR 0x8A] @ '' Audio en cours...''"

definition txt_audio_end :: string where \<comment> \<open>U+1F507, \<^verbatim>\<open> Audio termin\<close>, U+00E9\<close>
  "txt_audio_end = [CHR 0xF0, CHR 0x9F, CHR 0x94, CHR 0x87] @ '' Audio termin'' @ [CHR 0xC3, CHR 0xA9]"

definition txt_cross :: string where \<comment> \<open>U+274C and a space\<close>
  "txt_cross = [CHR 0xE2, CHR 0x9D, CHR 0x8C] @ '' ''"

definition txt_connected :: string where \<comment> \<open>\<^verbatim>\<open>Connect\<close>, U+00E9, space, U+2014, \<^verbatim>\<open> session: \<close>\<close>
  "txt_connected =
     ''Connect'' @ [CHR 0xC3, CHR 0xA9] @ '' '' @ [CHR 0xE2, CHR 0x80, CHR 0x94] @ '' session: ''"

definition txt_disconnected :: string where \<comment> \<open>\<^verbatim>\<open>D\<close>, U+00E9, \<^verbatim>\<open>connect\<close>, U+00E9\<close>
  "txt_disconnected = ''D'' @ [CHR 0xC3, CHR 0xA9] @ ''connect'' @ [CHR 0xC3, CHR 0xA9]"

definition txt_connect_failed :: string where \<comment> \<open>\<^verbatim>\<open>Connexion \<close>, U+00E9, \<^verbatim>\<open>chou\<close>, U+00E9, \<^verbatim>\<open>e: \<close>\<close>
  "txt_connect_failed =
     ''Connexion '' @ [CHR 0xC3, CHR 0xA9] @ ''chou'' @ [CHR 0xC3, CHR 0xA9] @ ''e: ''"

definition txt_rec_started :: string where \<comment> \<open>U+1F3A4, \<^verbatim>\<open> Enregistrement d\<close>, U+00E9, \<^verbatim>\<open>marr\<close>, U+00E9\<close>
  "txt_rec_started =
     [CHR 0xF0, CHR 0x9F, CHR 0x8E, CHR 0xA4] @ '' Enregistrement d'' @ [CHR 0xC3, CHR 0xA9] @
     ''marr'' @ [CHR 0xC3, CHR 0xA9]"

definition txt_rec_stopped :: string where \<comment> \<open>U+1F3A4, \<^verbatim>\<open> Enregistrement arr\<close>, U+00EA, \<^verbatim>\<open>t\<close>, U+00E9\<close>
  "txt_rec_stopped =
     [CHR 0xF0, CHR 0x9F, CHR 0x8E, CHR 0xA4] @ '' Enregistrement arr'' @ [CHR 0xC3, CHR 0xAA] @
     ''t'' @ [CHR 0xC3, CHR 0xA9]"

definition txt_typed :: string where \<comment> \<open>U+1F4DD and a space\<close>
  "txt_typed = [CHR 0xF0, CHR 0x9F, CHR 0x93, CHR 0x9D] @ '' ''"

definition txt_fl_connected :: string where \<comment> \<open>U+2705, space, then as \<^const>\<open>txt_connected\<close>\<close>
  "txt_fl_connected = [CHR 0xE2, CHR 0x9C, CHR 0x85] @ '' '' @ txt_connected"

text \<open>A number in a template literal or a string interpolation: its decimal digits.\<close>

function show_nat :: "nat \<Rightarrow> string" where
  "show_nat n =
     (if n < 10 then [char_of (48 + n)] else show_nat (n div 10) @ [char_of (48 + n mod 10)])"
  by pat_completeness auto
termination
  by (relation "measure id") auto

declare show_nat.simps [simp del]

text \<open>
  \<^verbatim>\<open>String.prototype.trim\<close> removes white space and line terminators from both ends:
  U+0009 to U+000D, U+0020, U+00A0, U+1680, U+2000 to U+200A, U+2028, U+2029, U+202F, U+205F,
  U+3000 and U+FEFF, here as their UTF-8 encodings. An encoding found at the end of a UTF-8
  string is that character, since no encoding is the tail of another.
\<close>

definition white_space :: "string list" where
  "white_space =
     [[CHR 0x09], [CHR 0x0A], [CHR 0x0B], [CHR 0x0C], [CHR 0x0D], [CHR 0x20],
      [CHR 0xC2, CHR 0xA0], [CHR 0xE1, CHR 0x9A, CHR 0x80],
      [CHR 0xE2, CHR 0x80, CHR 0x80], [CHR 0xE2, CHR 0x80, CHR 0x81],
      [CHR 0xE2, CHR 0x80, CHR 0x82], [CHR 0xE2, CHR 0x80, CHR 0x83],
      [CHR 0xE2, CHR 0x80, CHR 0x84], [CHR 0xE2, CHR 0x80, CHR 0x85],
      [CHR 0xE2, CHR 0x80, CHR 0x86], [CHR 0xE2, CHR 0x80, CHR 0x87],
      [CHR 0xE2, CHR 0x80, CHR 0x88], [CHR 0xE2, CHR 0x80, CHR 0x89],
      [CHR 0xE2, CHR 0x80, CHR 0x8A], [CHR 0xE2, CHR 0x80, CHR 0xA8],
      [CHR 0xE2, CHR 0x80, CHR 0xA9], [CHR 0xE2, CHR 0x80, CHR 0xAF],
      [CHR 0xE2, CHR 0x81, CHR 0x9F], [CHR 0xE3, CHR 0x80, CHR 0x80],
      [CHR 0xEF, CHR 0xBB, CHR 0xBF]]"

text \<open>The length of the entry of the table that the string starts with, 0 if there is none.\<close>

definition leading :: "string list \<Rightarrow> string \<Rightarrow> nat" where
  "leading table s =
     (case find (\<lambda>w. w \<noteq> [] \<and> take (length w) s = w) table of
        None \<Rightarrow> 0
      | Some w \<Rightarrow> length w)"

function strip_leading :: "string list \<Rightarrow> string \<Rightarrow> string" where
  "strip_leading table s =
     (if leading table s = 0 then s else strip_leading table (drop (leading table s) s))"
  by pat_completeness auto
termination
proof (relation "measure (\<lambda>(table, s). length s)")
  show "wf (measure (\<lambda>(table, s). length s))" by simp
next
  fix table :: "string list" and s :: string
  assume "leading table s \<noteq> 0"
  moreover have "find (\<lambda>w. w \<noteq> [] \<and> take (length w) [] = w) table = None"
    by (auto simp: find_None_iff)
  then have "leading table [] = 0"
    by (simp add: leading_def)
  ultimately have "s \<noteq> []" by auto
  with \<open>leading table s \<noteq> 0\<close>
  show "((table, drop (leading table s) s), (table, s)) \<in> measure (\<lambda>(table, s). length s)"
    by simp
qed

declare strip_leading.simps [simp del]

definition js_trim :: "string \<Rightarrow> string" where
  "js_trim s = rev (strip_leading (map rev white_space) (rev (strip_leading white_space s)))"

text \<open>
  A property of a parsed JSON object that holds a string, or is absent. An absent property
  reads as \<^verbatim>\<open>undefined\<close> in JavaScript and as \<^verbatim>\<open>null\<close> in Dart, and is interpolated as
  that word.
\<close>

fun js_str :: "string option \<Rightarrow> string" where
  "js_str None = ''undefined''"
| "js_str (Some v) = v"

fun dart_str :: "string option \<Rightarrow> string" where
  "dart_str None = ''null''"
| "dart_str (Some v) = v"

subsection \<open>The event log\<close>

record log_entry =
  log_time :: string
  log_type :: string
  log_message :: string

subsection \<open>Platform objects\<close>

datatype exn = RangeError | NotSupportedError | InvalidStateError

type_synonym ArrayBuffer = "8 word list"

text \<open>
  What is passed to \<^verbatim>\<open>send\<close>: the text frame
  \<^verbatim>\<open>JSON.stringify({ type: 'input.text', text })\<close>, kept as its \<^verbatim>\<open>text\<close>, or the
  buffer of an \<^verbatim>\<open>Int16Array\<close>.
\<close>

datatype payload = InputText string | Binary ArrayBuffer

datatype ready_state = CONNECTING | OPEN | CLOSING | CLOSED

text \<open>
  A \<^verbatim>\<open>WebSocket\<close>: its URL, the session identifier of the \<^verbatim>\<open>data\<close> its handlers close
  over, its \<^verbatim>\<open>readyState\<close>, and the calls of \<^verbatim>\<open>send\<close> made on it, each with the
  \<^verbatim>\<open>readyState\<close> it found.
\<close>

record websocket =
  ws_url :: string
  ws_session_id :: string
  readyState :: ready_state
  send_calls :: "(ready_state \<times> payload) list"

text \<open>
  The capture graph: \<^verbatim>\<open>{ stream, ctx, processor, source }\<close>, each with what
  \<^verbatim>\<open>stopRecording\<close> does to it.
\<close>

record recorder =
  processor_connected :: bool
  source_connected :: bool
  ctx_closed :: bool
  tracks_stopped :: bool

subsection \<open>The React component\<close>

text \<open>
  The state hooks and refs of \<^verbatim>\<open>App\<close>, and the platform objects it has created: the
  sockets and capture graphs (a ref holds an index into the list), the buffers started on the
  playback context in the order of \<^verbatim>\<open>source.start()\<close>, and the number of calls of
  \<^verbatim>\<open>fetch\<close>.
\<close>

record app =
  isConnected :: bool
  isRecording :: bool
  sessionId :: string
  logs :: "log_entry list"
  textInput :: string
  wsRef :: "nat option"
  mediaRecorderRef :: "nat option"
  audioContextRef :: bool
  audioQueueRef :: "ArrayBuffer list"
  sockets :: "websocket list"
  recorders :: "recorder list"
  started :: "rat list list"
  fetches :: nat

definition App :: app where
  "App = \<lparr>isConnected = False, isRecording = False, sessionId = [], logs = [], textInput = [],
     wsRef = None, mediaRecorderRef = None, audioContextRef = False, audioQueueRef = [],
     sockets = [], recorders = [], started = [], fetches = 0\<rparr>"

text \<open>
  \<^verbatim>\<open>setLogs(prev => [...prev.slice(-100), { time, type, message }])\<close>; the time is the
  clock reading of the handler that logs.
\<close>

definition addLog :: "string \<Rightarrow> string \<Rightarrow> string \<Rightarrow> app \<Rightarrow> app" where
  "addLog now type message s =
     s\<lparr>logs := drop (length (logs s) - 100) (logs s) @
                [\<lparr>log_time = now, log_type = type, log_message = message\<rparr>]\<rparr>"

text \<open>
  \<^verbatim>\<open>WebSocket.send\<close>: raises \<^verbatim>\<open>InvalidStateError\<close> while the socket is connecting;
  transmits when it is open; discards the data when it is closing or closed.
  \<^verbatim>\<open>WebSocket.close\<close>: starts the closing handshake unless it has started already.
\<close>

definition WebSocket_send :: "nat \<Rightarrow> payload \<Rightarrow> app \<Rightarrow> exn option \<times> app" where
  "WebSocket_send i p s =
     (let w = sockets s ! i;
          s' = s\<lparr>sockets := (sockets s)[i := w\<lparr>send_calls := send_calls w @ [(readyState w, p)]\<rparr>]\<rparr>
      in (if readyState w = CONNECTING then Some InvalidStateError else None, s'))"

definition WebSocket_close :: "nat \<Rightarrow> app \<Rightarrow> app" where
  "WebSocket_close i s =
     (let w = sockets s ! i
      in if readyState w = CLOSING \<or> readyState w = CLOSED then s
         else s\<lparr>sockets := (sockets s)[i := w\<lparr>readyState := CLOSING\<rparr>]\<rparr>)"

text \<open>
  What \<^verbatim>\<open>connect\<close> obtains from the platform: \<^verbatim>\<open>fetch\<close> rejects with a message or
  resolves to a response with a status; \<^verbatim>\<open>res.json()\<close> rejects with a message or
  resolves to the session data; \<^verbatim>\<open>new WebSocket(url)\<close> raises with a message or returns.
\<close>

record session_data =
  session_id :: string
  websocket_url :: string

record http_response =
  status :: nat
  json :: "string + session_data"

definition ok :: "http_response \<Rightarrow> bool" where
  "ok res = (200 \<le> status res \<and> status res \<le> 299)"

definition connect :: "string \<Rightarrow> string + http_response \<Rightarrow> string option \<Rightarrow> app \<Rightarrow> app" where
  "connect now fetched ctor_error s0 =
     (let s = s0\<lparr>fetches := Suc (fetches s0)\<rparr> in
      case fetched of
        Inl m \<Rightarrow> addLog now ''error'' (txt_connect_failed @ m) s
      | Inr res \<Rightarrow>
          if \<not> ok res
          then addLog now ''error'' (txt_connect_failed @ ''HTTP '' @ show_nat (status res)) s
          else
            (case json res of
               Inl m \<Rightarrow> addLog now ''error'' (txt_connect_failed @ m) s
             | Inr data \<Rightarrow>
                 let s1 = s\<lparr>sessionId := session_id data\<rparr> in
                 (case ctor_error of
                    Some m \<Rightarrow> addLog now ''error'' (txt_connect_failed @ m) s1
                  | None \<Rightarrow>
                      s1\<lparr>sockets := sockets s1 @
                           [\<lparr>ws_url = websocket_url data, ws_session_id = session_id data,
                             readyState = CONNECTING, send_calls = []\<rparr>],
                         wsRef := Some (length (sockets s1))\<rparr>)))"

text \<open>The handlers that \<^verbatim>\<open>connect\<close> registers on the socket.\<close>

definition ws_onopen :: "string \<Rightarrow> nat \<Rightarrow> app \<Rightarrow> app" where
  "ws_onopen now i s =
     addLog now ''system'' (txt_connected @ take 8 (ws_session_id (sockets s ! i)) @ ''...'')
       (s\<lparr>isConnected := True\<rparr>)"

definition ws_onclose :: "string \<Rightarrow> app \<Rightarrow> app" where
  "ws_onclose now s = addLog now ''system'' txt_disconnected (s\<lparr>isConnected := False\<rparr>)"

definition ws_onerror :: "string \<Rightarrow> app \<Rightarrow> app" where
  "ws_onerror now s = addLog now ''error'' ''Erreur WebSocket'' s"

definition disconnect :: "app \<Rightarrow> app" where
  "disconnect s =
     (let s1 = (case wsRef s of None \<Rightarrow> s | Some i \<Rightarrow> WebSocket_close i s)
      in s1\<lparr>wsRef := None, isConnected := False\<rparr>)"

text \<open>
  \<^verbatim>\<open>new Int16Array(data)\<close> raises \<^verbatim>\<open>RangeError\<close> when the byte length is odd; the
  elements are read in the platform's byte order, little-endian. \<^verbatim>\<open>createBuffer\<close> raises
  \<^verbatim>\<open>NotSupportedError\<close> for a length of zero.
\<close>

fun Int16Array :: "ArrayBuffer \<Rightarrow> 16 word list option" where
  "Int16Array [] = Some []"
| "Int16Array [b] = None"
| "Int16Array (lo # hi # bs) =
     (case Int16Array bs of None \<Rightarrow> None | Some ws \<Rightarrow> Some (word_cat hi lo # ws))"

text \<open>One iteration of the loop of \<^verbatim>\<open>playAudioQueue\<close>, after the \<^verbatim>\<open>shift()\<close>.\<close>

definition play_frame :: "ArrayBuffer \<Rightarrow> exn + rat list" where
  "play_frame data =
     (case Int16Array data of
        None \<Rightarrow> Inl RangeError
      | Some int16 \<Rightarrow>
          let float32 = map decode_sample int16
          in if length float32 = 0 then Inl NotSupportedError else Inr float32)"

text \<open>
  \<^verbatim>\<open>while (audioQueueRef.current.length > 0)\<close>, on the queue and the started buffers. An
  exception leaves the loop; the frame that raised it has been taken off the queue.
\<close>

fun play_loop :: "ArrayBuffer list \<Rightarrow> rat list list \<Rightarrow> exn option \<times> ArrayBuffer list \<times> rat list list" where
  "play_loop [] out = (None, [], out)"
| "play_loop (data # queue) out =
     (case play_frame data of
        Inl e \<Rightarrow> (Some e, queue, out)
      | Inr float32 \<Rightarrow> play_loop queue (out @ [float32]))"

text \<open>
  \<^verbatim>\<open>playAudioQueue\<close> has no \<^verbatim>\<open>await\<close>: a call runs to its end before the caller
  continues, and an exception rejects the promise it returns. The playback context is created
  on first use; its constructor is taken to succeed.
\<close>

definition playAudioQueue :: "app \<Rightarrow> exn option \<times> app" where
  "playAudioQueue s =
     (let s1 = (if \<not> audioContextRef s then s\<lparr>audioContextRef := True\<rparr> else s) in
      case play_loop (audioQueueRef s1) (started s1) of
        (e, queue, out) \<Rightarrow> (e, s1\<lparr>audioQueueRef := queue, started := out\<rparr>))"

text \<open>A parsed control message: the properties the dispatcher reads.\<close>

record control_message =
  msg_type :: "string option"
  msg_text :: "string option"
  msg_message :: "string option"

datatype message_event = Data ArrayBuffer | Json control_message

text \<open>
  \<^verbatim>\<open>ws.onmessage\<close>. The promise of \<^verbatim>\<open>playAudioQueue()\<close> is dropped, so the handler
  returns whether or not the drain raised.
\<close>

definition ws_onmessage :: "string \<Rightarrow> message_event \<Rightarrow> app \<Rightarrow> app" where
  "ws_onmessage now event s =
     (case event of
        Data data \<Rightarrow> snd (playAudioQueue (s\<lparr>audioQueueRef := audioQueueRef s @ [data]\<rparr>))
      | Json msg \<Rightarrow>
          if msg_type msg = Some ''session.created'' then addLog now ''system'' txt_session_ready s
          else if msg_type msg = Some ''transcription'' then
            addLog now ''user'' (txt_heard @ js_str (msg_text msg)) s
          else if msg_type msg = Some ''response.text'' then
            addLog now ''agent'' (txt_agent @ js_str (msg_text msg)) s
          else if msg_type msg = Some ''audio.start'' then addLog now ''audio'' txt_audio_start s
          else if msg_type msg = Some ''audio.end'' then addLog now ''audio'' txt_audio_end s
          else if msg_type msg = Some ''error'' then
            addLog now ''error'' (txt_cross @ js_str (msg_message msg)) s
          else addLog now ''system'' (''['' @ js_str (msg_type msg) @ '']'') s)"

text \<open>
  \<^verbatim>\<open>startRecording\<close>: the parameter is the message of the exception raised inside the
  \<^verbatim>\<open>try\<close> block (by \<^verbatim>\<open>getUserMedia\<close>), if any.
\<close>

definition startRecording :: "string \<Rightarrow> string option \<Rightarrow> app \<Rightarrow> app" where
  "startRecording now failure s =
     (case failure of
        Some m \<Rightarrow> addLog now ''error'' (''Micro inaccessible: '' @ m) s
      | None \<Rightarrow>
          addLog now ''system'' txt_rec_started
            (s\<lparr>recorders := recorders s @
                  [\<lparr>processor_connected = True, source_connected = True,
                    ctx_closed = False, tracks_stopped = False\<rparr>],
               mediaRecorderRef := Some (length (recorders s)),
               isRecording := True\<rparr>))"

text \<open>\<^verbatim>\<open>processor.onaudioprocess\<close>, on the samples of the input buffer.\<close>

definition int16_bytes :: "16 word \<Rightarrow> 8 word list" where
  "int16_bytes w = [ucast w, ucast (drop_bit 8 w)]"

definition onaudioprocess :: "jsnum list \<Rightarrow> app \<Rightarrow> exn option \<times> app" where
  "onaudioprocess float32 s =
     (case wsRef s of
        None \<Rightarrow> (None, s)
      | Some i \<Rightarrow>
          if readyState (sockets s ! i) = OPEN
          then WebSocket_send i (Binary (concat (map int16_bytes (map encode_sample float32)))) s
          else (None, s))"

definition stopRecording :: "string \<Rightarrow> app \<Rightarrow> app" where
  "stopRecording now s =
     (let s1 =
        (case mediaRecorderRef s of
           None \<Rightarrow> s
         | Some r \<Rightarrow>
             s\<lparr>recorders := (recorders s)
                  [r := \<lparr>processor_connected = False, source_connected = False,
                         ctx_closed = True, tracks_stopped = True\<rparr>],
               mediaRecorderRef := None\<rparr>)
      in addLog now ''system'' txt_rec_stopped (s1\<lparr>isRecording := False\<rparr>))"

definition sendText :: "string \<Rightarrow> app \<Rightarrow> exn option \<times> app" where
  "sendText now s =
     (if js_trim (textInput s) = [] then (None, s)
      else
        (case wsRef s of
           None \<Rightarrow> (None, s)
         | Some i \<Rightarrow>
             (case WebSocket_send i (InputText (js_trim (textInput s))) s of
                (Some e, s1) \<Rightarrow> (Some e, s1)
              | (None, s1) \<Rightarrow>
                  (None, (addLog now ''user'' (txt_typed @ js_trim (textInput s)) s1)
                           \<lparr>textInput := []\<rparr>))))"

text \<open>\<^verbatim>\<open>onChange={e => setTextInput(e.target.value)}\<close>\<close>

definition setTextInput :: "string \<Rightarrow> app \<Rightarrow> app" where
  "setTextInput v s = s\<lparr>textInput := v\<rparr>"

text \<open>The cleanup of the effect hook, run when the component unmounts.\<close>

definition unmount :: "string \<Rightarrow> app \<Rightarrow> app" where
  "unmount now s = stopRecording now (disconnect s)"

text \<open>
  The platform's part of an event on socket \<open>i\<close>: it sets \<^verbatim>\<open>readyState\<close>, then the
  handler runs.
\<close>

definition set_readyState :: "nat \<Rightarrow> ready_state \<Rightarrow> app \<Rightarrow> app" where
  "set_readyState i r s = s\<lparr>sockets := (sockets s)[i := (sockets s ! i)\<lparr>readyState := r\<rparr>]\<rparr>"

definition open_event :: "string \<Rightarrow> nat \<Rightarrow> app \<Rightarrow> app" where
  "open_event now i s = ws_onopen now i (set_readyState i OPEN s)"

definition close_event :: "string \<Rightarrow> nat \<Rightarrow> app \<Rightarrow> app" where
  "close_event now i s = ws_onclose now (set_readyState i CLOSED s)"

text \<open>The frames of a burst of binary messages, handled one after the other.\<close>

fun arrivals :: "string \<Rightarrow> ArrayBuffer list \<Rightarrow> app \<Rightarrow> app" where
  "arrivals now [] s = s"
| "arrivals now (data # rest) s = arrivals now rest (ws_onmessage now (Data data) s)"

subsection \<open>The Flutter widget\<close>

text \<open>
  The state of \<^verbatim>\<open>_VocalAgentScreenState\<close> that the connection logic uses: the channel (an
  index into the URLs of the channels opened so far), the flag, the session identifier, the
  log, and the number of calls of \<^verbatim>\<open>http.post\<close>.
\<close>

record flutter =
  fl_channel :: "nat option"
  fl_isConnected :: bool
  fl_sessionId :: "string option"
  fl_logs :: "log_entry list"
  fl_channels :: "string list"
  fl_posts :: nat

text \<open>\<^verbatim>\<open>_addLog\<close>: \<^verbatim>\<open>_logs.add(...); if (_logs.length > 100) _logs.removeAt(0);\<close>\<close>

definition fl_addLog :: "string \<Rightarrow> string \<Rightarrow> string \<Rightarrow> flutter \<Rightarrow> flutter" where
  "fl_addLog now type message s =
     (let l = fl_logs s @ [\<lparr>log_time = now, log_type = type, log_message = message\<rparr>]
      in s\<lparr>fl_logs := (if length l > 100 then tl l else l)\<rparr>)"

definition handleJsonMessage :: "string \<Rightarrow> control_message \<Rightarrow> flutter \<Rightarrow> flutter" where
  "handleJsonMessage now msg s =
     (if msg_type msg = Some ''session.created'' then fl_addLog now ''system'' txt_session_ready s
      else if msg_type msg = Some ''transcription'' then
        fl_addLog now ''user'' (txt_heard @ dart_str (msg_text msg)) s
      else if msg_type msg = Some ''response.text'' then
        fl_addLog now ''agent'' (txt_agent @ dart_str (msg_text msg)) s
      else if msg_type msg = Some ''audio.start'' then fl_addLog now ''audio'' txt_audio_start s
      else if msg_type msg = Some ''audio.end'' then fl_addLog now ''audio'' txt_audio_end s
      else if msg_type msg = Some ''error'' then
        fl_addLog now ''error'' (txt_cross @ dart_str (msg_message msg)) s
      else fl_addLog now ''system'' (''['' @ dart_str (msg_type msg) @ '']'') s)"

text \<open>
  What \<^verbatim>\<open>_connect\<close> obtains from the platform: \<^verbatim>\<open>http.post\<close> raises (the string is the
  exception as \<^verbatim>\<open>$e\<close> renders it) or returns a response with a status code;
  \<^verbatim>\<open>jsonDecode\<close> raises or returns a map, of which \<^verbatim>\<open>data['session_id']\<close> is read.
  The last statement raises when the identifier is null or shorter than eight characters;
  the texts are those of the Dart runtime.
\<close>

record fl_response =
  statusCode :: nat
  body :: "string + string option"

definition wsBaseUrl :: string where
  "wsBaseUrl = ''ws://localhost:8765/ws''"

definition fl_connect :: "string \<Rightarrow> string + fl_response \<Rightarrow> flutter \<Rightarrow> flutter" where
  "fl_connect now posted s0 =
     (let s = s0\<lparr>fl_posts := Suc (fl_posts s0)\<rparr> in
      case posted of
        Inl e \<Rightarrow> fl_addLog now ''error'' (txt_connect_failed @ e) s
      | Inr response \<Rightarrow>
          if statusCode response \<noteq> 200
          then fl_addLog now ''error'' (''Erreur HTTP: '' @ show_nat (statusCode response)) s
          else
            (case body response of
               Inl e \<Rightarrow> fl_addLog now ''error'' (txt_connect_failed @ e) s
             | Inr sid \<Rightarrow>
                 let s1 = s\<lparr>fl_sessionId := sid,
                            fl_channels := fl_channels s @ [wsBaseUrl @ ''/'' @ dart_str sid],
                            fl_channel := Some (length (fl_channels s)),
                            fl_isConnected := True\<rparr>
                 in (case sid of
                       None \<Rightarrow>
                         fl_addLog now ''error''
                           (txt_connect_failed @ ''Null check operator used on a null value'') s1
                     | Some v \<Rightarrow>
                         if length v < 8
                         then fl_addLog now ''error''
                                (txt_connect_failed @
                                 ''RangeError (end): Invalid value: Not in inclusive range 0..'' @
                                 show_nat (length v) @ '': 8'') s1
                         else fl_addLog now ''system'' (txt_fl_connected @ take 8 v @ ''...'') s1)))"

definition VocalAgentScreen :: flutter where
  "VocalAgentScreen = \<lparr>fl_channel = None, fl_isConnected = False, fl_sessionId = None,
     fl_logs = [], fl_channels = [], fl_posts = 0\<rparr>"

subsection \<open>The message taxonomy of the specification\<close>

text \<open>
  The specification's mapping from message type to log category, in its words:
  \<^verbatim>\<open>session.created\<close> to system, \<^verbatim>\<open>transcription\<close> to user, \<^verbatim>\<open>response.text\<close> to
  agent, \<^verbatim>\<open>audio.start\<close> and \<^verbatim>\<open>audio.end\<close> to audio, \<^verbatim>\<open>error\<close> to error, any other
  type to system. The dispatchers above are compared with it.
\<close>

definition spec_category :: "string \<Rightarrow> string" where
  "spec_category t =
     (if t = ''session.created'' then ''system''
      else if t = ''transcription'' then ''user''
      else if t = ''response.text'' then ''agent''
      else if t = ''audio.start'' \<or> t = ''audio.end'' then ''audio''
      else if t = ''error'' then ''error''
      else ''system'')"

definition spec_mapped_types :: "string list" where
  "spec_mapped_types =
     [''session.created'', ''transcription'', ''response.text'', ''audio.start'', ''audio.end'',
      ''error'']"

text \<open>The types of the specification's taxonomy that its mapping does not name.\<close>

definition spec_unmapped_types :: "string list" where
  "spec_unmapped_types =
     [''response.start'', ''response.end'', ''session.update'', ''input.text'',
      ''conversation.clear'', ''memory.clear'', ''ping'']"

subsection \<open>Sample executions\<close>

text \<open>
  A session of the React client: the handshake answers 200 with a session, the socket opens,
  the user starts the microphone, and types a message.
\<close>

definition session_response :: http_response where
  "session_response =
     \<lparr>status = 200,
      json = Inr \<lparr>session_id = ''abc12345-6789'', websocket_url = ''ws://localhost:8765/ws''\<rparr>\<rparr>"

definition s_connecting :: app where
  "s_connecting = connect ''10:00:00'' (Inr session_response) None App"

definition s_active :: app where
  "s_active = open_event ''10:00:01'' 0 s_connecting"

definition s_recording :: app where
  "s_recording = startRecording ''10:00:02'' None s_active"

definition s_typed :: app where
  "s_typed = setTextInput ''Bonjour'' s_active"

text \<open>The peer closes the connection of that session.\<close>

definition s_peer_closed :: app where
  "s_peer_closed = close_event ''10:00:05'' 0 s_typed"

text \<open>
  The connect button is pressed twice before either socket opens; the second socket fails and
  closes, then the first one opens, and the user types a message.
\<close>

definition s_second_socket_dead :: app where
  "s_second_socket_dead =
     setTextInput ''Bonjour''
       (open_event ''10:00:03'' 0
          (close_event ''10:00:02'' 1
             (connect ''10:00:01'' (Inr session_response) None s_connecting)))"

text \<open>A handshake answered 201 with a session, and two that are refused.\<close>

definition created_response :: http_response where
  "created_response =
     \<lparr>status = 201,
      json = Inr \<lparr>session_id = ''abc12345-6789'', websocket_url = ''ws://localhost:8765/ws''\<rparr>\<rparr>"

definition not_found_response :: http_response where
  "not_found_response = \<lparr>status = 404, json = Inl ''Unexpected token''\<rparr>"

definition fl_unavailable_response :: fl_response where
  "fl_unavailable_response = \<lparr>statusCode = 503, body = Inl ''FormatException''\<rparr>"

definition ping_message :: control_message where
  "ping_message = \<lparr>msg_type = Some ''ping'', msg_text = None, msg_message = None\<rparr>"

text \<open>One control message of each type that the dispatchers have a case for.\<close>

definition created_message :: control_message where
  "created_message =
     \<lparr>msg_type = Some ''session.created'', msg_text = None, msg_message = None\<rparr>"

definition transcription_message :: control_message where
  "transcription_message =
     \<lparr>msg_type = Some ''transcription'', msg_text = Some ''Bonjour'', msg_message = None\<rparr>"

definition response_message :: control_message where
  "response_message =
     \<lparr>msg_type = Some ''response.text'', msg_text = Some ''Salut'', msg_message = None\<rparr>"

definition audio_start_message :: control_message where
  "audio_start_message =
     \<lparr>msg_type = Some ''audio.start'', msg_text = None, msg_message = None\<rparr>"

definition audio_end_message :: control_message where
  "audio_end_message = \<lparr>msg_type = Some ''audio.end'', msg_text = None, msg_message = None\<rparr>"

definition error_message :: control_message where
  "error_message =
     \<lparr>msg_type = Some ''error'', msg_text = None, msg_message = Some ''timeout''\<rparr>"

section \<open>Properties\<close>

subsection \<open>The PCM16 codec\<close>

lemma clamp_sample_cases:
  "clamp_sample NaN = NaN"
  "clamp_sample PosInf = Finite 1"
  "clamp_sample NegInf = Finite (- 1)"
  "clamp_sample (Finite r) = Finite (max (- 1) (min 1 r))"
  by (simp_all add: clamp_sample_def)

lemma js_truncate_bounds:
  assumes "- 32767 \<le> y" "y \<le> 32767"
  shows "- 32767 \<le> js_truncate y \<and> js_truncate y \<le> 32767"
proof (cases "0 \<le> y")
  case True
  then have "0 \<le> \<lfloor>y\<rfloor>" by simp
  moreover have "\<lfloor>y\<rfloor> \<le> 32767" using assms(2) by (simp add: floor_le_iff)
  ultimately show ?thesis using True by (simp add: js_truncate_def)
next
  case False
  then have "\<lceil>y\<rceil> \<le> 0" by (simp add: ceiling_le_iff)
  moreover have "- 32767 \<le> \<lceil>y\<rceil>" using assms(1) by (simp add: le_ceiling_iff)
  ultimately show ?thesis using False by (simp add: js_truncate_def)
qed

lemma sint_int16_id:
  "- 32767 \<le> i \<Longrightarrow> i \<le> 32767 \<Longrightarrow> sint (word_of_int i :: 16 word) = i"
  by (simp add: signed_take_bit_int_eq_self sint_sbintrunc')

text \<open>On a finite sample the stored int16 is the truncated product, without wrap-around.\<close>

lemma encode_sample_Finite:
  "sint (encode_sample (Finite r)) = js_truncate (max (- 1) (min 1 r) * 32767)"
proof -
  let ?c = "max (- 1) (min 1 r)"
  have "- 32767 \<le> ?c * 32767" "?c * 32767 \<le> 32767" by simp_all
  then have "- 32767 \<le> js_truncate (?c * 32767) \<and> js_truncate (?c * 32767) \<le> 32767"
    by (rule js_truncate_bounds)
  then show ?thesis
    by (simp add: encode_sample_def clamp_sample_cases sint_int16_id)
qed

text \<open>
  The round trip reproduces the clamped sample to within two quantisation steps of the
  decoder: truncation loses less than one unit of the 32767 scale, and the decoder divides by
  32768 instead of 32767.
\<close>

lemma roundtrip_clamped:
  "\<bar>decode_sample (encode_sample (Finite x)) - max (- 1) (min 1 x)\<bar> < 1 / 16384"
proof -
  define c where "c = max (- 1) (min 1 x)"
  define y where "y = c * 32767"
  define n where "n = js_truncate y"
  have c: "- 1 \<le> c" "c \<le> 1" by (simp_all add: c_def)
  have dec: "decode_sample (encode_sample (Finite x)) = rat_of_int n / 32768"
    by (simp add: decode_sample_def encode_sample_Finite n_def y_def c_def)
  have cy: "c = y / 32767" by (simp add: y_def)
  show ?thesis
  proof (cases "0 \<le> y")
    case True
    then have "n = \<lfloor>y\<rfloor>" by (simp add: n_def js_truncate_def)
    then have n: "rat_of_int n \<le> y" "y < rat_of_int n + 1"
      using floor_correct [of y] by simp_all
    have "y \<le> 32767" using c by (simp add: y_def)
    with n True show ?thesis unfolding dec c_def[symmetric] cy
      by (simp add: abs_less_iff field_simps)
  next
    case False
    then have "n = \<lceil>y\<rceil>" by (simp add: n_def js_truncate_def)
    then have n: "y \<le> rat_of_int n" "rat_of_int n - 1 < y"
      using ceiling_correct [of y] by simp_all
    have "- 32767 \<le> y" using c by (simp add: y_def)
    with n False show ?thesis unfolding dec c_def[symmetric] cy
      by (simp add: abs_less_iff field_simps)
  qed
qed

text \<open>
  Claim C3, as stated: for every floating-point input sample \<open>x\<close> the round trip satisfies
  \<open>\<bar>decode (encode x) - x\<bar> \<le> 1 / 32768\<close>. It fails inside the nominal range at
  \<open>x = 1 - 2\<^sup>-\<^sup>1\<^sup>7\<close>, a binary32 value: the product 32766.75 is truncated to 32766, which
  decodes to \<open>16383 / 16384\<close>, an error of \<open>7 / 131072\<close>. It also fails outside the range at
  \<open>x = 2\<close>, which is clamped to 1 and decodes to \<open>32767 / 32768\<close>.
\<close>

theorem roundtrip_counterexample:
  "\<not> \<bar>decode_sample (encode_sample (Finite (131071 / 131072))) - 131071 / 131072\<bar> \<le> 1 / 32768 \<and>
   \<not> \<bar>decode_sample (encode_sample (Finite 2)) - 2\<bar> \<le> 1 / 32768"
proof -
  have "js_truncate (131071 / 131072 * 32767) = 32766" "js_truncate (1 * 32767) = 32767"
    by (simp_all add: js_truncate_def floor_unique)
  then show ?thesis
    by (simp add: decode_sample_def encode_sample_Finite)
qed

text \<open>
  Claim C3, amended: for every finite input sample \<open>x\<close> in \<open>[-1, 1]\<close> the round trip of the
  capture-side encoding followed by the playback-side decoding satisfies
  \<open>\<bar>decode (encode x) - x\<bar> < 2 / 32768\<close>.
\<close>

theorem roundtrip_bound:
  "- 1 \<le> x \<Longrightarrow> x \<le> 1 \<Longrightarrow> \<bar>decode_sample (encode_sample (Finite x)) - x\<bar> < 2 / 32768"
  using roundtrip_clamped [of x] by simp

theorem roundtrip_bound_witness:
  "- 1 \<le> (131071 / 131072 :: rat) \<and> (131071 / 131072 :: rat) \<le> 1 \<and>
   \<bar>decode_sample (encode_sample (Finite (131071 / 131072))) - 131071 / 131072\<bar> < 2 / 32768"
  using roundtrip_bound [of "131071 / 131072"] by simp

text \<open>
  Claim C4, as stated: for every floating-point input sample the encoder clamps the sample to
  \<open>[-1, 1]\<close> before scaling by 32767. It fails at NaN: \<^verbatim>\<open>Math.min\<close> and \<^verbatim>\<open>Math.max\<close>
  return NaN, so the value that is scaled is NaN, which is not in \<open>[-1, 1]\<close>.
\<close>

theorem clamp_nan_counterexample:
  "clamp_sample NaN = NaN \<and> times_32767 (clamp_sample NaN) = NaN \<and>
   \<not> in_unit_range (clamp_sample NaN)"
  by (simp add: clamp_sample_def)

text \<open>
  Claim C4, amended: for every floating-point input sample other than NaN, including the
  infinities and the values outside \<open>[-1, 1]\<close>, the encoder clamps the sample to
  \<open>max (-1) (min 1 x)\<close>, which is in \<open>[-1, 1]\<close>, before scaling by 32767; NaN passes the clamp
  as it is and is stored as 0. For every input the produced integer sample is the truncated
  product (0 for NaN), it lies in \<open>[-32767, 32767]\<close>, and the store into the
  \<^verbatim>\<open>Int16Array\<close> does not wrap.
\<close>

theorem encode_sample_clamped:
  "clamp_sample x =
     (case x of
        Finite q \<Rightarrow> Finite (max (- 1) (min 1 q))
      | PosInf \<Rightarrow> Finite 1
      | NegInf \<Rightarrow> Finite (- 1)
      | NaN \<Rightarrow> NaN) \<and>
   in_unit_range (clamp_sample x) = (x \<noteq> NaN) \<and>
   sint (encode_sample x) =
     (case clamp_sample x of Finite r \<Rightarrow> js_truncate (r * 32767) | _ \<Rightarrow> 0) \<and>
   - 32767 \<le> sint (encode_sample x) \<and> sint (encode_sample x) \<le> 32767"
proof (cases x)
  case (Finite q)
  let ?c = "max (- 1) (min 1 q)"
  have "- 32767 \<le> ?c * 32767" "?c * 32767 \<le> 32767" by simp_all
  then have "- 32767 \<le> js_truncate (?c * 32767) \<and> js_truncate (?c * 32767) \<le> 32767"
    by (rule js_truncate_bounds)
  with Finite show ?thesis
    by (simp add: clamp_sample_cases encode_sample_Finite)
next
  case PosInf
  have "sint (encode_sample PosInf) = 32767"
    by (simp add: encode_sample_def clamp_sample_cases js_truncate_def)
  with PosInf show ?thesis
    by (simp add: clamp_sample_cases js_truncate_def)
next
  case NegInf
  have "sint (encode_sample NegInf) = - 32767"
    by (simp add: encode_sample_def clamp_sample_cases js_truncate_def)
  with NegInf show ?thesis
    by (simp add: clamp_sample_cases js_truncate_def)
next
  case NaN
  then show ?thesis by (simp add: encode_sample_def clamp_sample_cases)
qed

text \<open>At 2 and at minus infinity: clamped to 1 and to -1, stored as 32767 and -32767.\<close>

theorem encode_sample_clamped_witness:
  "clamp_sample (Finite 2) = Finite 1 \<and> sint (encode_sample (Finite 2)) = 32767 \<and>
   clamp_sample NegInf = Finite (- 1) \<and> sint (encode_sample NegInf) = - 32767"
  using encode_sample_clamped [of "Finite 2"] encode_sample_clamped [of NegInf]
  by (simp add: js_truncate_def)

subsection \<open>Sample executions, evaluated\<close>

lemma s_connecting_eval:
  "s_connecting = App\<lparr>sessionId := ''abc12345-6789'', fetches := 1, wsRef := Some 0,
     sockets := [\<lparr>ws_url = ''ws://localhost:8765/ws'', ws_session_id = ''abc12345-6789'',
                  readyState = CONNECTING, send_calls = []\<rparr>]\<rparr>"
  by (simp add: s_connecting_def connect_def session_response_def ok_def App_def)

lemma s_active_fields:
  "wsRef s_active = Some 0"
  "sockets s_active =
     [\<lparr>ws_url = ''ws://localhost:8765/ws'', ws_session_id = ''abc12345-6789'',
       readyState = OPEN, send_calls = []\<rparr>]"
  "isConnected s_active"
  "mediaRecorderRef s_active = None"
  "recorders s_active = []"
  "\<not> isRecording s_active"
  by (simp_all add: s_active_def open_event_def ws_onopen_def set_readyState_def addLog_def
      s_connecting_eval App_def)

lemma s_recording_fields:
  "wsRef s_recording = Some 0"
  "sockets s_recording = sockets s_active"
  "isRecording s_recording"
  "mediaRecorderRef s_recording = Some 0"
  "recorders s_recording =
     [\<lparr>processor_connected = True, source_connected = True,
       ctx_closed = False, tracks_stopped = False\<rparr>]"
  by (simp_all add: s_recording_def startRecording_def addLog_def s_active_fields)

lemma s_peer_closed_fields:
  "wsRef s_peer_closed = Some 0"
  "sockets s_peer_closed =
     [\<lparr>ws_url = ''ws://localhost:8765/ws'', ws_session_id = ''abc12345-6789'',
       readyState = CLOSED, send_calls = []\<rparr>]"
  "\<not> isConnected s_peer_closed"
  "textInput s_peer_closed = ''Bonjour''"
  by (simp_all add: s_peer_closed_def s_typed_def setTextInput_def close_event_def ws_onclose_def
      set_readyState_def addLog_def s_active_fields)

lemma s_second_socket_dead_fields:
  "isConnected s_second_socket_dead"
  "wsRef s_second_socket_dead = Some 1"
  "sockets s_second_socket_dead =
     [\<lparr>ws_url = ''ws://localhost:8765/ws'', ws_session_id = ''abc12345-6789'',
       readyState = OPEN, send_calls = []\<rparr>,
      \<lparr>ws_url = ''ws://localhost:8765/ws'', ws_session_id = ''abc12345-6789'',
       readyState = CLOSED, send_calls = []\<rparr>]"
  "textInput s_second_socket_dead = ''Bonjour''"
  by (simp_all add: s_second_socket_dead_def setTextInput_def open_event_def close_event_def
      ws_onopen_def ws_onclose_def set_readyState_def addLog_def connect_def session_response_def
      ok_def s_connecting_eval App_def)

lemma js_trim_Bonjour: "js_trim ''Bonjour'' = ''Bonjour''"
  by code_simp

text \<open>A message of white space only, a no-break space among it, trims to the empty string.\<close>

lemma js_trim_blank: "js_trim ('' '' @ [CHR 0xC2, CHR 0xA0, CHR 0x09]) = []"
  by code_simp

subsection \<open>The playback queue\<close>

text \<open>
  A frame is accepted by \<^const>\<open>play_frame\<close> exactly when it holds a whole, positive number of
  samples.
\<close>

lemma Int16Array_even:
  "even (length data) \<Longrightarrow> \<exists>ws. Int16Array data = Some ws \<and> length ws = length data div 2"
  by (induction data rule: Int16Array.induct) auto

lemma Int16Array_odd: "odd (length data) \<Longrightarrow> Int16Array data = None"
  by (induction data rule: Int16Array.induct) auto

lemma play_frame_whole:
  assumes "data \<noteq> []" and "even (length data)"
  shows "\<exists>b. play_frame data = Inr b \<and> length b = length data div 2"
proof -
  from assms(2) obtain ws where ws: "Int16Array data = Some ws" "length ws = length data div 2"
    using Int16Array_even by blast
  from assms have "2 \<le> length data" by (cases data) (auto simp: Suc_le_eq)
  then have "ws \<noteq> []" using ws(2) by auto
  with ws show ?thesis by (simp add: play_frame_def)
qed

lemma play_frame_odd: "odd (length data) \<Longrightarrow> play_frame data = Inl RangeError"
  by (simp add: play_frame_def Int16Array_odd)

text \<open>
  The loop on a queue whose frames are all accepted: it empties the queue and starts one
  buffer per frame, in queue order.
\<close>

lemma play_loop_playable:
  "list_all (\<lambda>f. f \<noteq> [] \<and> even (length f)) q \<Longrightarrow>
   play_loop (q @ r) out = play_loop r (out @ [b. Inr b \<leftarrow> map play_frame q])"
proof (induction q arbitrary: out)
  case Nil
  then show ?case by simp
next
  case (Cons f q)
  then obtain b where "play_frame f = Inr b" using play_frame_whole [of f] by auto
  with Cons show ?case by simp
qed

lemma drain_all_queued:
  "list_all (\<lambda>f. f \<noteq> [] \<and> even (length f)) q \<Longrightarrow>
   play_loop q out = (None, [], out @ [b. Inr b \<leftarrow> map play_frame q])"
  using play_loop_playable [of q "[]" out] by simp





text \<open>A frame with an odd number of bytes between two whole ones: it alone starts no buffer.\<close>

lemma odd_frame_dropped:
  "started (arrivals ''10:00:00'' [[0x00, 0x40], [0x01, 0x02, 0x03], [0x00, 0xC0]] App) =
     [[1 / 2], [- 1 / 2]] \<and>
   audioQueueRef (arrivals ''10:00:00'' [[0x00, 0x40], [0x01, 0x02, 0x03], [0x00, 0xC0]] App) = []"
  by (simp add: ws_onmessage_def playAudioQueue_def play_frame_def decode_sample_def word_cat_eq
      App_def)

subsection \<open>The control-message dispatcher\<close>

lemma spec_category_cases:
  "spec_category ''session.created'' = ''system''"
  "spec_category ''transcription'' = ''user''"
  "spec_category ''response.text'' = ''agent''"
  "spec_category ''audio.start'' = ''audio''"
  "spec_category ''audio.end'' = ''audio''"
  "spec_category ''error'' = ''error''"
  "t \<notin> set spec_mapped_types \<Longrightarrow> spec_category t = ''system''"
  by (simp_all add: spec_category_def spec_mapped_types_def)

text \<open>The arms of the two switches, with the entries they log.\<close>

lemma ws_onmessage_cases:
  "msg_type msg = Some ''session.created'' \<Longrightarrow>
     ws_onmessage now (Json msg) s = addLog now ''system'' txt_session_ready s"
  "msg_type msg = Some ''transcription'' \<Longrightarrow>
     ws_onmessage now (Json msg) s = addLog now ''user'' (txt_heard @ js_str (msg_text msg)) s"
  "msg_type msg = Some ''response.text'' \<Longrightarrow>
     ws_onmessage now (Json msg) s = addLog now ''agent'' (txt_agent @ js_str (msg_text msg)) s"
  "msg_type msg = Some ''audio.start'' \<Longrightarrow>
     ws_onmessage now (Json msg) s = addLog now ''audio'' txt_audio_start s"
  "msg_type msg = Some ''audio.end'' \<Longrightarrow>
     ws_onmessage now (Json msg) s = addLog now ''audio'' txt_audio_end s"
  "msg_type msg = Some ''error'' \<Longrightarrow>
     ws_onmessage now (Json msg) s = addLog now ''error'' (txt_cross @ js_str (msg_message msg)) s"
  "msg_type msg = Some t \<Longrightarrow> t \<notin> set spec_mapped_types \<Longrightarrow>
     ws_onmessage now (Json msg) s = addLog now ''system'' (''['' @ t @ '']'') s"
  by (simp_all add: ws_onmessage_def spec_mapped_types_def)

lemma handleJsonMessage_cases:
  "msg_type msg = Some ''session.created'' \<Longrightarrow>
     handleJsonMessage now msg f = fl_addLog now ''system'' txt_session_ready f"
  "msg_type msg = Some ''transcription'' \<Longrightarrow>
     handleJsonMessage now msg f = fl_addLog now ''user'' (txt_heard @ dart_str (msg_text msg)) f"
  "msg_type msg = Some ''response.text'' \<Longrightarrow>
     handleJsonMessage now msg f = fl_addLog now ''agent'' (txt_agent @ dart_str (msg_text msg)) f"
  "msg_type msg = Some ''audio.start'' \<Longrightarrow>
     handleJsonMessage now msg f = fl_addLog now ''audio'' txt_audio_start f"
  "msg_type msg = Some ''audio.end'' \<Longrightarrow>
     handleJsonMessage now msg f = fl_addLog now ''audio'' txt_audio_end f"
  "msg_type msg = Some ''error'' \<Longrightarrow>
     handleJsonMessage now msg f = fl_addLog now ''error'' (txt_cross @ dart_str (msg_message msg)) f"
  "msg_type msg = Some t \<Longrightarrow> t \<notin> set spec_mapped_types \<Longrightarrow>
     handleJsonMessage now msg f = fl_addLog now ''system'' (''['' @ t @ '']'') f"
  by (simp_all add: handleJsonMessage_def spec_mapped_types_def)

lemma mapped_type_cases:
  "t \<in> set spec_mapped_types \<Longrightarrow>
     t = ''session.created'' \<or> t = ''transcription'' \<or> t = ''response.text'' \<or>
     t = ''audio.start'' \<or> t = ''audio.end'' \<or> t = ''error''"
  by (simp add: spec_mapped_types_def)

text \<open>The two loggers, as what they do to the log.\<close>

lemma addLog_logs:
  "addLog now c m s =
     s\<lparr>logs := drop (length (logs s) - 100) (logs s) @
                [\<lparr>log_time = now, log_type = c, log_message = m\<rparr>]\<rparr>"
  by (simp add: addLog_def)

lemma fl_addLog_logs:
  "fl_addLog now c m f =
     f\<lparr>fl_logs :=
         (if length (fl_logs f) < 100
          then fl_logs f @ [\<lparr>log_time = now, log_type = c, log_message = m\<rparr>]
          else tl (fl_logs f) @ [\<lparr>log_time = now, log_type = c, log_message = m\<rparr>])\<rparr>"
  by (cases "fl_logs f") (auto simp: fl_addLog_def Let_def)

text \<open>
  Claim C2: for every inbound control message of type \<open>t\<close>, the dispatcher of either client
  returns the state with exactly one entry appended to the log (under the log's bound), stamped
  with the time of the handler, of the category that the specification's mapping gives for
  \<open>t\<close>, and with nothing else changed; for a type outside the six mapped ones the entry is of
  category system and its message is the raw type string in brackets. The result is given for
  every type string: there is no type on which the dispatcher raises.
\<close>

theorem dispatch_categories:
  "msg_type msg = Some t \<Longrightarrow>
     (\<exists>text.
        ws_onmessage now (Json msg) s =
          s\<lparr>logs := drop (length (logs s) - 100) (logs s) @
                     [\<lparr>log_time = now, log_type = spec_category t, log_message = text\<rparr>]\<rparr>) \<and>
     (\<exists>text.
        handleJsonMessage now msg f =
          f\<lparr>fl_logs :=
              (if length (fl_logs f) < 100
               then fl_logs f @
                    [\<lparr>log_time = now, log_type = spec_category t, log_message = text\<rparr>]
               else tl (fl_logs f) @
                    [\<lparr>log_time = now, log_type = spec_category t, log_message = text\<rparr>])\<rparr>) \<and>
     (t \<notin> set spec_mapped_types \<longrightarrow>
        ws_onmessage now (Json msg) s =
          s\<lparr>logs := drop (length (logs s) - 100) (logs s) @
                     [\<lparr>log_time = now, log_type = ''system'', log_message = ''['' @ t @ '']''\<rparr>]\<rparr> \<and>
        handleJsonMessage now msg f =
          f\<lparr>fl_logs :=
              (if length (fl_logs f) < 100
               then fl_logs f @
                    [\<lparr>log_time = now, log_type = ''system'', log_message = ''['' @ t @ '']''\<rparr>]
               else tl (fl_logs f) @
                    [\<lparr>log_time = now, log_type = ''system'', log_message = ''['' @ t @ '']''\<rparr>])\<rparr>)"
proof (cases "t \<in> set spec_mapped_types")
  case False
  assume "msg_type msg = Some t"
  with False have
    "ws_onmessage now (Json msg) s = addLog now ''system'' (''['' @ t @ '']'') s"
    "handleJsonMessage now msg f = fl_addLog now ''system'' (''['' @ t @ '']'') f"
    "spec_category t = ''system''"
    by (simp_all add: ws_onmessage_cases(7) handleJsonMessage_cases(7) spec_category_cases(7))
  then show ?thesis unfolding addLog_logs fl_addLog_logs by metis
next
  case True
  assume ty: "msg_type msg = Some t"
  from mapped_type_cases [OF True] have
    "\<exists>a b. ws_onmessage now (Json msg) s = addLog now (spec_category t) a s \<and>
           handleJsonMessage now msg f = fl_addLog now (spec_category t) b f"
  proof (elim disjE)
    assume "t = ''session.created''"
    with ty show ?thesis
      by (auto simp add: ws_onmessage_cases(1) handleJsonMessage_cases(1) spec_category_cases(1))
  next
    assume "t = ''transcription''"
    with ty show ?thesis
      by (auto simp add: ws_onmessage_cases(2) handleJsonMessage_cases(2) spec_category_cases(2))
  next
    assume "t = ''response.text''"
    with ty show ?thesis
      by (auto simp add: ws_onmessage_cases(3) handleJsonMessage_cases(3) spec_category_cases(3))
  next
    assume "t = ''audio.start''"
    with ty show ?thesis
      by (auto simp add: ws_onmessage_cases(4) handleJsonMessage_cases(4) spec_category_cases(4))
  next
    assume "t = ''audio.end''"
    with ty show ?thesis
      by (auto simp add: ws_onmessage_cases(5) handleJsonMessage_cases(5) spec_category_cases(5))
  next
    assume "t = ''error''"
    with ty show ?thesis
      by (auto simp add: ws_onmessage_cases(6) handleJsonMessage_cases(6) spec_category_cases(6))
  qed
  then obtain a b where
    "ws_onmessage now (Json msg) s = addLog now (spec_category t) a s"
    "handleJsonMessage now msg f = fl_addLog now (spec_category t) b f"
    by blast
  with True show ?thesis unfolding addLog_logs fl_addLog_logs by blast
qed

text \<open>
  One message of each mapped type and one of an unmapped type, on the freshly started clients:
  the log holds one entry, of the category of the mapping.
\<close>

theorem dispatch_categories_witness:
  "(msg_type created_message = Some ''session.created'' \<and>
    map log_type (logs (ws_onmessage ''10:00:00'' (Json created_message) App)) = [''system''] \<and>
    map log_type (fl_logs (handleJsonMessage ''10:00:00'' created_message VocalAgentScreen)) =
      [''system'']) \<and>
   (msg_type transcription_message = Some ''transcription'' \<and>
    map log_type (logs (ws_onmessage ''10:00:00'' (Json transcription_message) App)) = [''user''] \<and>
    map log_type (fl_logs (handleJsonMessage ''10:00:00'' transcription_message VocalAgentScreen)) =
      [''user'']) \<and>
   (msg_type response_message = Some ''response.text'' \<and>
    map log_type (logs (ws_onmessage ''10:00:00'' (Json response_message) App)) = [''agent''] \<and>
    map log_type (fl_logs (handleJsonMessage ''10:00:00'' response_message VocalAgentScreen)) =
      [''agent'']) \<and>
   (msg_type audio_start_message = Some ''audio.start'' \<and>
    map log_type (logs (ws_onmessage ''10:00:00'' (Json audio_start_message) App)) = [''audio''] \<and>
    map log_type (fl_logs (handleJsonMessage ''10:00:00'' audio_start_message VocalAgentScreen)) =
      [''audio'']) \<and>
   (msg_type audio_end_message = Some ''audio.end'' \<and>
    map log_type (logs (ws_onmessage ''10:00:00'' (Json audio_end_message) App)) = [''audio''] \<and>
    map log_type (fl_logs (handleJsonMessage ''10:00:00'' audio_end_message VocalAgentScreen)) =
      [''audio'']) \<and>
   (msg_type error_message = Some ''error'' \<and>
    map log_type (logs (ws_onmessage ''10:00:00'' (Json error_message) App)) = [''error''] \<and>
    map log_type (fl_logs (handleJsonMessage ''10:00:00'' error_message VocalAgentScreen)) =
      [''error'']) \<and>
   (msg_type ping_message = Some ''ping'' \<and> ''ping'' \<notin> set spec_mapped_types \<and>
    logs (ws_onmessage ''10:00:00'' (Json ping_message) App) =
      [\<lparr>log_time = ''10:00:00'', log_type = ''system'', log_message = ''[ping]''\<rparr>] \<and>
    fl_logs (handleJsonMessage ''10:00:00'' ping_message VocalAgentScreen) =
      [\<lparr>log_time = ''10:00:00'', log_type = ''system'', log_message = ''[ping]''\<rparr>])"
proof -
  have l: "logs App = []" "fl_logs VocalAgentScreen = []"
    by (simp_all add: App_def VocalAgentScreen_def)
  have c: "msg_type created_message = Some ''session.created''"
    by (simp add: created_message_def)
  have tr: "msg_type transcription_message = Some ''transcription''"
    by (simp add: transcription_message_def)
  have r: "msg_type response_message = Some ''response.text''"
    by (simp add: response_message_def)
  have a1: "msg_type audio_start_message = Some ''audio.start''"
    by (simp add: audio_start_message_def)
  have a2: "msg_type audio_end_message = Some ''audio.end''"
    by (simp add: audio_end_message_def)
  have e: "msg_type error_message = Some ''error''"
    by (simp add: error_message_def)
  have p: "msg_type ping_message = Some ''ping''" "''ping'' \<notin> set spec_mapped_types"
    by (simp_all add: ping_message_def spec_mapped_types_def)
  note d = dispatch_categories [where now = "''10:00:00''" and s = App and f = VocalAgentScreen]
  have "map log_type (logs (ws_onmessage ''10:00:00'' (Json created_message) App)) = [''system''] \<and>
    map log_type (fl_logs (handleJsonMessage ''10:00:00'' created_message VocalAgentScreen)) =
      [''system'']"
    using d [OF c] l by (auto simp add: spec_category_cases)
  moreover have
    "map log_type (logs (ws_onmessage ''10:00:00'' (Json transcription_message) App)) = [''user''] \<and>
    map log_type (fl_logs (handleJsonMessage ''10:00:00'' transcription_message VocalAgentScreen)) =
      [''user'']"
    using d [OF tr] l by (auto simp add: spec_category_cases)
  moreover have
    "map log_type (logs (ws_onmessage ''10:00:00'' (Json response_message) App)) = [''agent''] \<and>
    map log_type (fl_logs (handleJsonMessage ''10:00:00'' response_message VocalAgentScreen)) =
      [''agent'']"
    using d [OF r] l by (auto simp add: spec_category_cases)
  moreover have
    "map log_type (logs (ws_onmessage ''10:00:00'' (Json audio_start_message) App)) = [''audio''] \<and>
    map log_type (fl_logs (handleJsonMessage ''10:00:00'' audio_start_message VocalAgentScreen)) =
      [''audio'']"
    using d [OF a1] l by (auto simp add: spec_category_cases)
  moreover have
    "map log_type (logs (ws_onmessage ''10:00:00'' (Json audio_end_message) App)) = [''audio''] \<and>
    map log_type (fl_logs (handleJsonMessage ''10:00:00'' audio_end_message VocalAgentScreen)) =
      [''audio'']"
    using d [OF a2] l by (auto simp add: spec_category_cases)
  moreover have
    "map log_type (logs (ws_onmessage ''10:00:00'' (Json error_message) App)) = [''error''] \<and>
    map log_type (fl_logs (handleJsonMessage ''10:00:00'' error_message VocalAgentScreen)) =
      [''error'']"
    using d [OF e] l by (auto simp add: spec_category_cases)
  moreover have
    "logs (ws_onmessage ''10:00:00'' (Json ping_message) App) =
      [\<lparr>log_time = ''10:00:00'', log_type = ''system'', log_message = ''[ping]''\<rparr>] \<and>
    fl_logs (handleJsonMessage ''10:00:00'' ping_message VocalAgentScreen) =
      [\<lparr>log_time = ''10:00:00'', log_type = ''system'', log_message = ''[ping]''\<rparr>]"
    using d [OF p(1)] p(2) l by simp
  ultimately show ?thesis using c tr r a1 a2 e p by simp
qed

text \<open>
  Claim C10: for every inbound control message whose type is one of \<^verbatim>\<open>response.start\<close>,
  \<^verbatim>\<open>response.end\<close>, \<^verbatim>\<open>session.update\<close>, \<^verbatim>\<open>input.text\<close>, \<^verbatim>\<open>conversation.clear\<close>,
  \<^verbatim>\<open>memory.clear\<close>, \<^verbatim>\<open>ping\<close>, the dispatcher of either client takes the default arm: it
  appends one entry of category system whose message is the bracketed raw type string, and
  changes nothing else (the log keeps its bound, as for every entry).
\<close>

theorem unmapped_types_default_arm:
  "msg_type msg = Some t \<Longrightarrow> t \<in> set spec_unmapped_types \<Longrightarrow>
     ws_onmessage now (Json msg) s =
       s\<lparr>logs := drop (length (logs s) - 100) (logs s) @
                  [\<lparr>log_time = now, log_type = ''system'', log_message = ''['' @ t @ '']''\<rparr>]\<rparr> \<and>
     handleJsonMessage now msg f =
       f\<lparr>fl_logs :=
           (if length (fl_logs f) < 100
            then fl_logs f @
                 [\<lparr>log_time = now, log_type = ''system'', log_message = ''['' @ t @ '']''\<rparr>]
            else tl (fl_logs f) @
                 [\<lparr>log_time = now, log_type = ''system'', log_message = ''['' @ t @ '']''\<rparr>])\<rparr>"
proof -
  assume ty: "msg_type msg = Some t" and un: "t \<in> set spec_unmapped_types"
  from un have d: "t \<noteq> ''session.created''" "t \<noteq> ''transcription''" "t \<noteq> ''response.text''"
    "t \<noteq> ''audio.start''" "t \<noteq> ''audio.end''" "t \<noteq> ''error''"
    by (auto simp: spec_unmapped_types_def)
  have r: "ws_onmessage now (Json msg) s =
       s\<lparr>logs := drop (length (logs s) - 100) (logs s) @
                  [\<lparr>log_time = now, log_type = ''system'', log_message = ''['' @ t @ '']''\<rparr>]\<rparr>"
    using ty d by (simp add: ws_onmessage_def addLog_def)
  have fl: "handleJsonMessage now msg f =
       f\<lparr>fl_logs :=
           (if length (fl_logs f) < 100
            then fl_logs f @
                 [\<lparr>log_time = now, log_type = ''system'', log_message = ''['' @ t @ '']''\<rparr>]
            else tl (fl_logs f) @
                 [\<lparr>log_time = now, log_type = ''system'', log_message = ''['' @ t @ '']''\<rparr>])\<rparr>"
    using ty d by (cases "fl_logs f") (auto simp: handleJsonMessage_def fl_addLog_def Let_def)
  from r fl show ?thesis by (rule conjI)
qed

theorem unmapped_types_default_arm_witness:
  "msg_type ping_message = Some ''ping'' \<and> ''ping'' \<in> set spec_unmapped_types \<and>
   logs (ws_onmessage ''10:00:00'' (Json ping_message) App) =
     [\<lparr>log_time = ''10:00:00'', log_type = ''system'', log_message = ''[ping]''\<rparr>] \<and>
   fl_logs (handleJsonMessage ''10:00:00'' ping_message VocalAgentScreen) =
     [\<lparr>log_time = ''10:00:00'', log_type = ''system'', log_message = ''[ping]''\<rparr>]"
  using unmapped_types_default_arm [of ping_message "''ping''" "''10:00:00''" App VocalAgentScreen]
  by (simp add: ping_message_def spec_unmapped_types_def App_def VocalAgentScreen_def)

subsection \<open>Capture frames and the transport\<close>

text \<open>
  Claim C5: for every captured frame produced while the transport does not report an open
  state (there is no socket, or its \<^verbatim>\<open>readyState\<close> is not \<^verbatim>\<open>OPEN\<close>), the frame is dropped:
  the handler raises nothing and leaves the whole state as it was, so nothing is sent and
  nothing is kept for later.
\<close>

theorem closed_transport_drops_frame:
  "\<not> (\<exists>i. wsRef s = Some i \<and> readyState (sockets s ! i) = OPEN) \<Longrightarrow>
   onaudioprocess float32 s = (None, s)"
  by (simp add: onaudioprocess_def split: option.splits)

theorem closed_transport_drops_frame_witness:
  "\<not> (\<exists>i. wsRef s_peer_closed = Some i \<and> readyState (sockets s_peer_closed ! i) = OPEN) \<and>
   onaudioprocess [Finite (1 / 2), Finite (- 1)] s_peer_closed = (None, s_peer_closed) \<and>
   \<not> (\<exists>i. wsRef App = Some i \<and> readyState (sockets App ! i) = OPEN) \<and>
   onaudioprocess [Finite (1 / 2), Finite (- 1)] App = (None, App)"
proof -
  have a: "\<not> (\<exists>i. wsRef s_peer_closed = Some i \<and> readyState (sockets s_peer_closed ! i) = OPEN)"
    by (simp add: s_peer_closed_fields)
  have b: "\<not> (\<exists>i. wsRef App = Some i \<and> readyState (sockets App ! i) = OPEN)"
    by (simp add: App_def)
  show ?thesis
    using a b closed_transport_drops_frame [OF a, of "[Finite (1 / 2), Finite (- 1)]"]
      closed_transport_drops_frame [OF b, of "[Finite (1 / 2), Finite (- 1)]"]
    by simp
qed

text \<open>While the transport is open the frame is sent, encoded, little-endian.\<close>

lemma open_transport_sends_frame:
  "fst (onaudioprocess [Finite (1 / 2), Finite (- 1)] s_active) = None \<and>
   map send_calls (sockets (snd (onaudioprocess [Finite (1 / 2), Finite (- 1)] s_active))) =
     [[(OPEN, Binary [0xFF, 0x3F, 0x01, 0x80])]]"
proof -
  have "js_truncate (1 / 2 * 32767) = 16383" "js_truncate (- 1 * 32767) = - 32767"
    by (simp_all add: js_truncate_def floor_unique)
  then have "encode_sample (Finite (1 / 2)) = 0x3FFF" "encode_sample (Finite (- 1)) = 0x8001"
    by (simp_all add: encode_sample_def clamp_sample_def)
  then show ?thesis
    by (simp add: onaudioprocess_def WebSocket_send_def int16_bytes_def s_active_fields)
qed

subsection \<open>Sending after the connection has closed\<close>

text \<open>
  \<^verbatim>\<open>disconnect\<close> drops the reference, after which neither path sends. The handler of the
  close event does not: the reference stays on the closed socket.
\<close>

lemma disconnect_drops_reference:
  "wsRef (disconnect s) = None \<and>
   sendText now (disconnect s) = (None, disconnect s) \<and>
   onaudioprocess float32 (disconnect s) = (None, disconnect s)"
  by (simp add: sendText_def onaudioprocess_def disconnect_def)

lemma onclose_keeps_reference:
  "wsRef (ws_onclose now s) = wsRef s \<and> wsRef (close_event now i s) = wsRef s"
  by (simp add: close_event_def ws_onclose_def addLog_def set_readyState_def)

text \<open>
  Claim C6 says that once the close event of a connection has fired, nothing calls
  \<^verbatim>\<open>send\<close> on it. In the sample session the peer closes the connection while a typed
  message is pending: the reference still holds the closed socket, and \<^verbatim>\<open>sendText\<close> calls
  \<^verbatim>\<open>send\<close> on it, raises nothing, and logs the message as sent.
\<close>

theorem sendText_after_close:
  "wsRef s_peer_closed = Some 0 \<and>
   readyState (sockets s_peer_closed ! 0) = CLOSED \<and>
   fst (sendText ''10:00:06'' s_peer_closed) = None \<and>
   send_calls (sockets (snd (sendText ''10:00:06'' s_peer_closed)) ! 0) =
     [(CLOSED, InputText ''Bonjour'')] \<and>
   log_type (last (logs (snd (sendText ''10:00:06'' s_peer_closed)))) = ''user''"
  by (simp add: sendText_def WebSocket_send_def addLog_def s_peer_closed_fields js_trim_Bonjour)

text \<open>
  The same with the controls on screen (\<^const>\<open>isConnected\<close> holds): of two sockets opened
  by two presses of the connect button, the one that the reference holds has closed.
\<close>

lemma sendText_on_dead_socket:
  "isConnected s_second_socket_dead \<and>
   fst (sendText ''10:00:04'' s_second_socket_dead) = None \<and>
   map send_calls (sockets (snd (sendText ''10:00:04'' s_second_socket_dead))) =
     [[], [(CLOSED, InputText ''Bonjour'')]]"
  by (simp add: sendText_def WebSocket_send_def addLog_def js_trim_Bonjour
      s_second_socket_dead_fields)

subsection \<open>The handshake\<close>

text \<open>
  Claim C7, as stated: every handshake response with a status other than 200 makes the
  connection attempt fail. The React client tests \<^verbatim>\<open>res.ok\<close>: on a 201 that carries a
  session it opens the socket and logs no error.
\<close>

theorem handshake_counterexample:
  "status created_response \<noteq> 200 \<and>
   wsRef (connect ''10:00:00'' (Inr created_response) None App) = Some 0 \<and>
   sockets (connect ''10:00:00'' (Inr created_response) None App) =
     [\<lparr>ws_url = ''ws://localhost:8765/ws'', ws_session_id = ''abc12345-6789'',
       readyState = CONNECTING, send_calls = []\<rparr>] \<and>
   logs (connect ''10:00:00'' (Inr created_response) None App) = []"
  by (simp add: connect_def created_response_def ok_def App_def)

text \<open>
  Claim C7, amended: for every handshake response whose status is outside 200--299 in the
  React client, and for every status other than 200 in the Flutter client, the connection
  attempt fails: its only effects are one request and one entry of category error in the log;
  no socket or channel is opened, the reference and the connected flag are unchanged, and the
  request is made once.
\<close>

theorem handshake_failure:
  "(status res < 200 \<or> 299 < status res \<longrightarrow>
      connect now (Inr res) ctor_error s =
        addLog now ''error'' (txt_connect_failed @ ''HTTP '' @ show_nat (status res))
          (s\<lparr>fetches := Suc (fetches s)\<rparr>) \<and>
      sockets (connect now (Inr res) ctor_error s) = sockets s \<and>
      wsRef (connect now (Inr res) ctor_error s) = wsRef s \<and>
      isConnected (connect now (Inr res) ctor_error s) = isConnected s \<and>
      fetches (connect now (Inr res) ctor_error s) = Suc (fetches s)) \<and>
   (statusCode response \<noteq> 200 \<longrightarrow>
      fl_connect now (Inr response) f =
        fl_addLog now ''error'' (''Erreur HTTP: '' @ show_nat (statusCode response))
          (f\<lparr>fl_posts := Suc (fl_posts f)\<rparr>) \<and>
      fl_channels (fl_connect now (Inr response) f) = fl_channels f \<and>
      fl_channel (fl_connect now (Inr response) f) = fl_channel f \<and>
      fl_isConnected (fl_connect now (Inr response) f) = fl_isConnected f \<and>
      fl_posts (fl_connect now (Inr response) f) = Suc (fl_posts f))"
proof -
  have r: "connect now (Inr res) ctor_error s =
        addLog now ''error'' (txt_connect_failed @ ''HTTP '' @ show_nat (status res))
          (s\<lparr>fetches := Suc (fetches s)\<rparr>)"
    if "status res < 200 \<or> 299 < status res"
    using that by (auto simp: connect_def ok_def)
  have fl: "fl_connect now (Inr response) f =
        fl_addLog now ''error'' (''Erreur HTTP: '' @ show_nat (statusCode response))
          (f\<lparr>fl_posts := Suc (fl_posts f)\<rparr>)"
    if "statusCode response \<noteq> 200"
    using that by (simp add: fl_connect_def)
  show ?thesis
    using r fl by (simp add: addLog_def fl_addLog_def Let_def)
qed

theorem handshake_failure_witness:
  "(status not_found_response < 200 \<or> 299 < status not_found_response) \<and>
   logs (connect ''10:00:00'' (Inr not_found_response) None App) =
     [\<lparr>log_time = ''10:00:00'', log_type = ''error'',
       log_message = txt_connect_failed @ ''HTTP 404''\<rparr>] \<and>
   sockets (connect ''10:00:00'' (Inr not_found_response) None App) = [] \<and>
   wsRef (connect ''10:00:00'' (Inr not_found_response) None App) = None \<and>
   \<not> isConnected (connect ''10:00:00'' (Inr not_found_response) None App) \<and>
   fetches (connect ''10:00:00'' (Inr not_found_response) None App) = 1 \<and>
   statusCode fl_unavailable_response \<noteq> 200 \<and>
   fl_logs (fl_connect ''10:00:00'' (Inr fl_unavailable_response) VocalAgentScreen) =
     [\<lparr>log_time = ''10:00:00'', log_type = ''error'', log_message = ''Erreur HTTP: 503''\<rparr>] \<and>
   fl_channels (fl_connect ''10:00:00'' (Inr fl_unavailable_response) VocalAgentScreen) = [] \<and>
   \<not> fl_isConnected (fl_connect ''10:00:00'' (Inr fl_unavailable_response) VocalAgentScreen) \<and>
   fl_posts (fl_connect ''10:00:00'' (Inr fl_unavailable_response) VocalAgentScreen) = 1"
proof -
  have n: "show_nat 404 = ''404''" "show_nat 503 = ''503''"
    by code_simp+
  show ?thesis
    using handshake_failure [of not_found_response "''10:00:00''" None App fl_unavailable_response
        VocalAgentScreen] n
    by (simp add: not_found_response_def fl_unavailable_response_def addLog_def fl_addLog_def
        App_def VocalAgentScreen_def)
qed

subsection \<open>Disconnecting while recording\<close>

text \<open>\<^verbatim>\<open>disconnect\<close> touches neither the recording flag nor the capture graph.\<close>

lemma disconnect_keeps_recorder:
  "isRecording (disconnect s) = isRecording s \<and>
   mediaRecorderRef (disconnect s) = mediaRecorderRef s \<and>
   recorders (disconnect s) = recorders s"
  by (simp add: disconnect_def WebSocket_close_def Let_def split: option.splits)

text \<open>
  Claim C8 says that \<^verbatim>\<open>disconnect()\<close>, called while capture is recording, closes the
  connection and stops the capture pipeline. In the sample session, recording, it closes the
  connection and drops the reference, but the recording flag stays set and the capture graph
  stays connected, its context open and its tracks live. The cleanup at unmount, which calls
  \<^verbatim>\<open>stopRecording\<close> after \<^verbatim>\<open>disconnect\<close>, releases them.
\<close>

theorem disconnect_leaves_capture_running:
  "isRecording s_recording \<and> mediaRecorderRef s_recording = Some 0 \<and>
   wsRef (disconnect s_recording) = None \<and>
   map readyState (sockets (disconnect s_recording)) = [CLOSING] \<and>
   isRecording (disconnect s_recording) \<and>
   mediaRecorderRef (disconnect s_recording) = Some 0 \<and>
   recorders (disconnect s_recording) =
     [\<lparr>processor_connected = True, source_connected = True,
       ctx_closed = False, tracks_stopped = False\<rparr>] \<and>
   \<not> isRecording (unmount ''10:00:09'' s_recording) \<and>
   mediaRecorderRef (unmount ''10:00:09'' s_recording) = None \<and>
   recorders (unmount ''10:00:09'' s_recording) =
     [\<lparr>processor_connected = False, source_connected = False,
       ctx_closed = True, tracks_stopped = True\<rparr>]"
  by (simp add: unmount_def stopRecording_def addLog_def disconnect_def WebSocket_close_def
      s_recording_fields s_active_fields)

subsection \<open>Stopping the capture\<close>





end
